theory Spec2Isabelle
  imports Complex_Main
begin

section \<open>The adversarial attack loop of \<open>mmdet/apis/train.py\<close>\<close>

text \<open>
  This theory embeds \<open>attack_detector\<close> (lines 238 to 302 of \<open>mmdet/apis/train.py\<close>).
  The detection model, the data loader and the visualisation sink are collaborators
  outside the file; they are taken as parameters or as data:
  \<^item> the model is a function from the current image and the batch to the result
    mapping, each loss term carrying the gradient it contributes to the image when
    \<open>backward\<close> is called on it;
  \<^item> the data loader is a list of batches;
  \<^item> a call of \<open>visualize_img\<close> is logged with its path and its image.
  The debugger call of line 268 and the progress bars have no effect on the values
  computed; of the outer progress bar only the count of its updates is kept.
\<close>

subsection \<open>Tensor elements\<close>

text \<open>
  A tensor element is an IEEE float. Finite values are idealised as exact reals (no
  rounding, no overflow); the two infinities and NaN are kept, since a division by a
  zero maximum produces them without raising.
\<close>

datatype fval = Fin real | PInf | NInf | NaN

fun fadd :: "fval \<Rightarrow> fval \<Rightarrow> fval" where
  "fadd (Fin a) (Fin b) = Fin (a + b)"
| "fadd NaN y = NaN"
| "fadd x NaN = NaN"
| "fadd PInf NInf = NaN"
| "fadd NInf PInf = NaN"
| "fadd PInf y = PInf"
| "fadd NInf y = NInf"
| "fadd (Fin a) PInf = PInf"
| "fadd (Fin a) NInf = NInf"

definition fdiv :: "real \<Rightarrow> real \<Rightarrow> fval" where
  \<comment> \<open>the quotient of two finite tensor elements; a tensor division never raises\<close>
  "fdiv a b =
     (if b \<noteq> 0 then Fin (a / b)
      else if a = 0 then NaN
      else if 0 < a then PInf
      else NInf)"

fun fscale :: "fval \<Rightarrow> real \<Rightarrow> fval" where
  \<comment> \<open>an element times a finite factor\<close>
  "fscale (Fin a) s = Fin (a * s)"
| "fscale NaN s = NaN"
| "fscale PInf s = (if s = 0 then NaN else if 0 < s then PInf else NInf)"
| "fscale NInf s = (if s = 0 then NaN else if 0 < s then NInf else PInf)"

fun fsub :: "fval \<Rightarrow> fval \<Rightarrow> fval" where
  "fsub (Fin a) (Fin b) = Fin (a - b)"
| "fsub NaN y = NaN"
| "fsub x NaN = NaN"
| "fsub PInf PInf = NaN"
| "fsub NInf NInf = NaN"
| "fsub PInf y = PInf"
| "fsub NInf y = NInf"
| "fsub (Fin a) PInf = NInf"
| "fsub (Fin a) NInf = PInf"

fun fabs :: "fval \<Rightarrow> fval" where
  "fabs (Fin a) = Fin \<bar>a\<bar>"
| "fabs NaN = NaN"
| "fabs PInf = PInf"
| "fabs NInf = PInf"

fun fle :: "fval \<Rightarrow> fval \<Rightarrow> bool" where
  \<comment> \<open>IEEE comparison: every comparison with NaN is false\<close>
  "fle NaN y = False"
| "fle x NaN = False"
| "fle NInf y = True"
| "fle x PInf = True"
| "fle PInf y = False"
| "fle x NInf = False"
| "fle (Fin a) (Fin b) = (a \<le> b)"

text \<open>
  An image is channel-first: a list of channels, each channel the list of its pixels
  (height and width flattened). The batch dimension, always of size 1 here, is left out.
\<close>

type_synonym tensor = "fval list list"

type_synonym grad = "real list list"

subsection \<open>Errors, results of the model, inputs\<close>

datatype error = KeyError | IndexError | TypeError | RuntimeError | ZeroDivisionError | OSError

record loss_term =
  lval :: real
  lgrad :: "grad option"

text \<open>
  \<open>lval\<close> is the value of a scalar (0-dimensional) tensor; \<open>lgrad\<close> is the gradient
  that \<open>backward\<close> on this tensor adds to \<open>imgs.grad\<close>, or \<open>None\<close> when the tensor has
  no dependency path to the image.
\<close>

datatype entry = Tensor loss_term | TList "loss_term list"

text \<open>A result mapping is a Python dict in insertion order: a list of pairs with distinct keys.\<close>

type_synonym result = "(string \<times> entry) list"

record batch =
  img :: "real list list"
  filename :: string
  mean :: "real list"
  std :: "real list"

type_synonym model = "tensor \<Rightarrow> batch \<Rightarrow> result"

record args =
  epsilon :: real
  num_attack_iter :: int
  max_attack_batches :: int
  save_path :: string
  clear_output :: bool

record config =
  workers_per_gpu :: int
  imgs_per_gpu :: int
  gpus :: int

datatype node = File | Dir

text \<open>
  The world the function acts on: the caller's configuration object, the entries of the
  directory \<open>save_path\<close> as \<open>os.listdir\<close> and \<open>os.remove\<close> see them, and the log of the
  calls of \<open>visualize_img\<close> (what the sink does to the file system is its own business).
\<close>

record world =
  cfg :: config
  dir :: "(string \<times> node) list"
  written :: "(string \<times> fval list list) list"

subsection \<open>One attack iteration (lines 264 to 281)\<close>

definition getitem :: "result \<Rightarrow> string \<Rightarrow> error + entry" where
  "getitem r k = (case map_of r k of None \<Rightarrow> Inl KeyError | Some v \<Rightarrow> Inr v)"

definition backward :: "loss_term \<Rightarrow> grad option \<Rightarrow> grad option" where
  \<comment> \<open>\<open>loss.backward(retain_graph=True)\<close>: the gradient accumulates in \<open>imgs.grad\<close>\<close>
  "backward t acc =
     (case lgrad t of
        None \<Rightarrow> acc
      | Some g \<Rightarrow> (case acc of None \<Rightarrow> Some g | Some h \<Rightarrow> Some (map2 (map2 (+)) h g)))"

fun backward_entry :: "entry \<Rightarrow> grad option \<Rightarrow> grad option" where
  "backward_entry (TList ts) acc = fold backward ts acc"
| "backward_entry (Tensor t) acc = backward t acc"

fun backward_keys :: "result \<Rightarrow> string list \<Rightarrow> grad option \<Rightarrow> error + grad option" where
  "backward_keys r [] acc = Inr acc"
| "backward_keys r (k # ks) acc =
     (case getitem r k of
        Inl e \<Rightarrow> Inl e
      | Inr v \<Rightarrow> backward_keys r ks (backward_entry v acc))"

definition max_abs :: "grad \<Rightarrow> real option" where
  \<comment> \<open>\<open>torch.max(torch.abs(g))\<close>; \<open>None\<close> for a tensor with no element, where torch raises\<close>
  "max_abs g = (case concat g of [] \<Rightarrow> None | x # xs \<Rightarrow> Some (foldl max \<bar>x\<bar> (map abs xs)))"

definition step :: "real \<Rightarrow> int \<Rightarrow> tensor \<Rightarrow> grad option \<Rightarrow> error + tensor" where
  \<comment> \<open>line 278\<close>
  "step eps n x gr =
     (if n = 0 then Inl ZeroDivisionError
      else case gr of
        None \<Rightarrow> Inl TypeError
      | Some g \<Rightarrow>
          (case max_abs g of
             None \<Rightarrow> Inl RuntimeError
           | Some m \<Rightarrow> Inr (map2 (map2 (\<lambda>p d. fadd p (fdiv (eps / real_of_int n * d) m))) x g)))"

definition clear_graph :: "result \<Rightarrow> string list \<Rightarrow> error + unit" where
  \<comment> \<open>line 279, \<open>result[keys[0]][0].backward()\<close>: indexing a scalar tensor raises\<close>
  "clear_graph r keys =
     (case keys of
        [] \<Rightarrow> Inl IndexError
      | k # _ \<Rightarrow>
          (case getitem r k of
             Inl e \<Rightarrow> Inl e
           | Inr (Tensor t) \<Rightarrow> Inl IndexError
           | Inr (TList []) \<Rightarrow> Inl IndexError
           | Inr (TList (t # _)) \<Rightarrow> Inr ()))"

record loop_state =
  imgs :: tensor
  acc_list :: "entry list"

text \<open>
  An iteration that raises returns the error with the state of the loop at the moment
  of the raise.
\<close>

definition attack_iteration ::
  "model \<Rightarrow> args \<Rightarrow> batch \<Rightarrow> loop_state \<Rightarrow> (error \<times> loop_state) + loop_state" where
  "attack_iteration m a data st =
     (let result = m (imgs st) data;
          keys = map fst result
      in case getitem result ''acc'' of
           Inl e \<Rightarrow> Inl (e, st)
         | Inr v \<Rightarrow>
             (let st1 = st\<lparr>acc_list := acc_list st @ [v]\<rparr>;
                  keys1 = remove1 ''acc'' keys
              in case backward_keys result keys1 None of
                   Inl e \<Rightarrow> Inl (e, st1)
                 | Inr gr \<Rightarrow>
                     (case step (epsilon a) (num_attack_iter a) (imgs st1) gr of
                        Inl e \<Rightarrow> Inl (e, st1)
                      | Inr x \<Rightarrow>
                          (let st2 = st1\<lparr>imgs := x\<rparr>
                           in case clear_graph result keys1 of
                                Inl e \<Rightarrow> Inl (e, st2)
                              | Inr u \<Rightarrow> Inr st2))))"

fun attack_iters ::
  "model \<Rightarrow> args \<Rightarrow> batch \<Rightarrow> nat \<Rightarrow> loop_state \<Rightarrow> (error \<times> loop_state) + loop_state" where
  \<comment> \<open>\<open>for _ in range(args.num_attack_iter)\<close>, with the number of iterations still to run\<close>
  "attack_iters m a data 0 st = Inr st"
| "attack_iters m a data (Suc k) st =
     (case attack_iteration m a data st of
        Inl e \<Rightarrow> Inl e
      | Inr st' \<Rightarrow> attack_iters m a data k st')"

subsection \<open>One batch (lines 256 to 296)\<close>

definition acc_value :: "entry \<Rightarrow> error + real" where
  \<comment> \<open>the operand of \<open>+=\<close> on a running total: a number plus a list is a TypeError\<close>
  "acc_value v = (case v of Tensor t \<Rightarrow> Inr (lval t) | TList ts \<Rightarrow> Inl TypeError)"

definition denorm_pixel :: "real \<Rightarrow> real \<Rightarrow> fval \<Rightarrow> fval" where
  "denorm_pixel s mu p = fadd (fscale p s) (Fin mu)"

definition denorm_channel :: "real list \<Rightarrow> real list \<Rightarrow> nat \<Rightarrow> tensor \<Rightarrow> error + tensor" where
  \<comment> \<open>\<open>x[k] = x[k] * imgs_std[k] + imgs_mean[k]\<close>\<close>
  "denorm_channel sd mu k x =
     (if k < length x \<and> k < length sd \<and> k < length mu
      then Inr (x[k := map (denorm_pixel (sd ! k) (mu ! k)) (x ! k)])
      else Inl IndexError)"

fun denormalize ::
  "real list \<Rightarrow> real list \<Rightarrow> nat list \<Rightarrow> tensor \<times> tensor \<Rightarrow> error + tensor \<times> tensor" where
  \<comment> \<open>\<open>for k in range(0, 3)\<close> over the perturbed and the raw image\<close>
  "denormalize sd mu [] xy = Inr xy"
| "denormalize sd mu (k # ks) (x, y) =
     (case denorm_channel sd mu k x of
        Inl e \<Rightarrow> Inl e
      | Inr x' \<Rightarrow>
          (case denorm_channel sd mu k y of
             Inl e \<Rightarrow> Inl e
           | Inr y' \<Rightarrow> denormalize sd mu ks (x', y')))"

definition reorder :: "tensor \<Rightarrow> error + tensor" where
  \<comment> \<open>\<open>x[[2, 1, 0]]\<close>\<close>
  "reorder x = (if 3 \<le> length x then Inr [x ! 2, x ! 1, x ! 0] else Inl IndexError)"

definition basename :: "string \<Rightarrow> string" where
  \<comment> \<open>the second component of \<open>os.path.split\<close>\<close>
  "basename p = rev (takeWhile (\<lambda>c. c \<noteq> CHR ''/'') (rev p))"

record batch_out =
  pre :: real
  post :: real
  trace :: "entry list"
  adv :: tensor
  files :: "(string \<times> fval list list) list"

definition start :: "batch \<Rightarrow> loop_state" where
  \<comment> \<open>lines 256 and 262: the image of the batch and the empty trace\<close>
  "start data = \<lparr>imgs = map (map Fin) (img data), acc_list = []\<rparr>"

definition attack_batch :: "model \<Rightarrow> args \<Rightarrow> batch \<Rightarrow> error + batch_out" where
  "attack_batch m a data =
     (let raw_imgs = map (map Fin) (img data)
      in case attack_iters m a data (nat (num_attack_iter a)) (start data) of
           Inl (e, st) \<Rightarrow> Inl e
         | Inr st \<Rightarrow>
             (case acc_list st of
                [] \<Rightarrow> Inl IndexError
              | v0 # vs \<Rightarrow>
                  (case acc_value v0 of
                     Inl e \<Rightarrow> Inl e
                   | Inr b \<Rightarrow>
                       (case acc_value (last (acc_list st)) of
                          Inl e \<Rightarrow> Inl e
                        | Inr u \<Rightarrow>
                            (case denormalize (std data) (mean data) [0, 1, 2] (imgs st, raw_imgs) of
                               Inl e \<Rightarrow> Inl e
                             | Inr (x, y) \<Rightarrow>
                                 (case reorder x of
                                    Inl e \<Rightarrow> Inl e
                                  | Inr x' \<Rightarrow>
                                      (case reorder y of
                                         Inl e \<Rightarrow> Inl e
                                       | Inr y' \<Rightarrow>
                                           Inr \<lparr>pre = b, post = u, trace = acc_list st,
                                                adv = imgs st,
                                                files =
                                                  [(save_path a @ basename (filename data),
                                                    transpose y'),
                                                   (save_path a @ ''attack_'' @ basename (filename data),
                                                    transpose x')]\<rparr>)))))))"

subsection \<open>The whole run (lines 238 to 302)\<close>

fun remove_files ::
  "string list \<Rightarrow> (string \<times> node) list \<Rightarrow> (string \<times> node) list \<times> (error + unit)" where
  \<comment> \<open>\<open>os.remove\<close> on each listed name; it raises on a directory and on a missing name\<close>
  "remove_files [] d = (d, Inr ())"
| "remove_files (f # fs) d =
     (case map_of d f of
        Some File \<Rightarrow> remove_files fs (filter (\<lambda>(n, k). n \<noteq> f) d)
      | Some Dir \<Rightarrow> (d, Inl OSError)
      | None \<Rightarrow> (d, Inl OSError))"

definition prepare :: "args \<Rightarrow> world \<Rightarrow> world \<times> (error + unit)" where
  \<comment> \<open>lines 239 to 247: everything before the loop over the batches\<close>
  "prepare a w =
     (let w1 = w\<lparr>cfg := (cfg w)\<lparr>workers_per_gpu := 0, imgs_per_gpu := 1\<rparr>\<rparr>
      in if clear_output a
         then (case remove_files (map fst (dir w1)) (dir w1) of
                 (d, r) \<Rightarrow> (w1\<lparr>dir := d\<rparr>, r))
         else (w1, Inr ()))"

record totals =
  acc_before_attack :: real
  acc_under_attack :: real
  pbar_outer :: nat

fun attack_batches ::
  "model \<Rightarrow> args \<Rightarrow> int \<Rightarrow> int \<Rightarrow> batch list \<Rightarrow> totals \<Rightarrow> world \<Rightarrow> world \<times> (error + totals)" where
  \<comment> \<open>\<open>for i, data in enumerate(attack_loader)\<close> with the break at \<open>max_batch\<close>\<close>
  "attack_batches m a max_batch i [] t w = (w, Inr t)"
| "attack_batches m a max_batch i (data # rest) t w =
     (if i \<ge> max_batch then (w, Inr t)
      else case attack_batch m a data of
             Inl e \<Rightarrow> (w, Inl e)
           | Inr out \<Rightarrow>
               attack_batches m a max_batch (i + 1) rest
                 \<lparr>acc_before_attack = acc_before_attack t + pre out,
                  acc_under_attack = acc_under_attack t + post out,
                  pbar_outer = Suc (pbar_outer t)\<rparr>
                 (w\<lparr>written := written w @ files out\<rparr>))"

record report =
  mean_before :: real
  mean_under :: real
  processed :: nat

definition attack_detector ::
  "args \<Rightarrow> model \<Rightarrow> ('d \<Rightarrow> int \<Rightarrow> int \<Rightarrow> int \<Rightarrow> batch list) \<Rightarrow> 'd \<Rightarrow> world
     \<Rightarrow> world \<times> (error + report)" where
  "attack_detector a m build_dataloader dataset w =
     (case prepare a w of
        (w1, Inl e) \<Rightarrow> (w1, Inl e)
      | (w1, Inr u) \<Rightarrow>
          (let attack_loader =
                 build_dataloader dataset (imgs_per_gpu (cfg w1)) (workers_per_gpu (cfg w1))
                   (gpus (cfg w1));
               max_batch = min (int (length attack_loader)) (max_attack_batches a)
           in case attack_batches m a max_batch 0 attack_loader
                     \<lparr>acc_before_attack = 0, acc_under_attack = 0, pbar_outer = 0\<rparr> w1 of
                (w2, Inl e) \<Rightarrow> (w2, Inl e)
              | (w2, Inr t) \<Rightarrow>
                  (if max_batch = 0 then (w2, Inl ZeroDivisionError)
                   else (w2, Inr \<lparr>mean_before = acc_before_attack t / real_of_int max_batch,
                                  mean_under = acc_under_attack t / real_of_int max_batch,
                                  processed = pbar_outer t\<rparr>))))"

subsection \<open>The normalisation of the data source\<close>

text \<open>
  Modelled from the spec: the normalisation that the data source applies to an image
  before \<open>attack_detector\<close> sees it is not in \<open>train.py\<close>. The specification gives it as
  \<open>norm(x) = (x - mean) / std\<close>, with the mean and the std of the pixel's channel.
\<close>

definition normalize_pixel :: "real \<Rightarrow> real \<Rightarrow> real \<Rightarrow> real" where
  \<comment> \<open>Modelled from the spec: \<open>norm(x) = (x - mean) / std\<close>\<close>
  "normalize_pixel s mu x = (x - mu) / s"

definition normalize_img :: "real list \<Rightarrow> real list \<Rightarrow> real list list \<Rightarrow> real list list" where
  \<comment> \<open>Modelled from the spec: \<open>norm\<close> on every pixel, channel \<open>k\<close> with \<open>std[k]\<close> and \<open>mean[k]\<close>\<close>
  "normalize_img sd mu x =
     map (\<lambda>k. map (normalize_pixel (sd ! k) (mu ! k)) (x ! k)) [0..<length x]"

subsection \<open>Concrete inputs\<close>

definition ex_args :: args where
  "ex_args = \<lparr>epsilon = 2, num_attack_iter = 2, max_attack_batches = 2,
              save_path = ''out/'', clear_output = True\<rparr>"

definition single_args :: args where
  "single_args = \<lparr>epsilon = 0, num_attack_iter = 1, max_attack_batches = 2,
                 save_path = ''out/'', clear_output = True\<rparr>"

definition ex_world :: world where
  "ex_world = \<lparr>cfg = \<lparr>workers_per_gpu = 4, imgs_per_gpu = 2, gpus = 1\<rparr>,
               dir = [(''a.png'', File), (''attack_a.png'', File)], written = []\<rparr>"

definition ex_batch :: batch where
  "ex_batch = \<lparr>img = [[1, 2], [3, 4], [5, 6]], filename = ''data/a.png'',
               mean = [1, 2, 3], std = [2, 2, 2]\<rparr>"


definition ex_model :: model where
  \<comment> \<open>two losses with a gradient on the image; the accuracy drops once the image has moved\<close>
  "ex_model x data =
     [(''loss_rpn_cls'', TList [\<lparr>lval = 1, lgrad = Some [[1, -2], [0, 4], [2, 0]]\<rparr>]),
      (''acc'', Tensor \<lparr>lval = (if x = map (map Fin) (img data) then 3 / 4 else 1 / 4),
                        lgrad = None\<rparr>),
      (''loss_cls'', Tensor \<lparr>lval = 2, lgrad = Some [[1, 0], [0, 0], [0, 0]]\<rparr>)]"

definition zero_model :: model where
  \<comment> \<open>a model whose loss is flat in the image: the gradient is zero everywhere\<close>
  "zero_model x data =
     [(''loss_rpn_cls'', TList [\<lparr>lval = 0, lgrad = Some [[0, 0], [0, 0], [0, 0]]\<rparr>]),
      (''acc'', Tensor \<lparr>lval = 1, lgrad = None\<rparr>)]"

definition no_acc_model :: model where
  \<comment> \<open>a model that reports no accuracy, as a single-stage detector does\<close>
  "no_acc_model x data =
     [(''loss_cls'', TList [\<lparr>lval = 1, lgrad = Some [[1, -2], [0, 4], [2, 0]]\<rparr>])]"

definition ex_out :: batch_out where
  "ex_out =
     \<lparr>pre = 3 / 4, post = 1 / 4,
      trace = [Tensor \<lparr>lval = 3 / 4, lgrad = None\<rparr>, Tensor \<lparr>lval = 1 / 4, lgrad = None\<rparr>],
      adv = [[Fin 2, Fin 1], [Fin 3, Fin 6], [Fin 6, Fin 6]],
      files = [(''out/a.png'', [[Fin 13, Fin 8, Fin 3], [Fin 15, Fin 10, Fin 5]]),
               (''out/attack_a.png'', [[Fin 15, Fin 8, Fin 5], [Fin 15, Fin 14, Fin 3]])]\<rparr>"

definition single_out :: batch_out where
  "single_out =
     \<lparr>pre = 3 / 4, post = 3 / 4,
      trace = [Tensor \<lparr>lval = 3 / 4, lgrad = None\<rparr>],
      adv = [[Fin 1, Fin 2], [Fin 3, Fin 4], [Fin 5, Fin 6]],
      files = [(''out/a.png'', [[Fin 13, Fin 8, Fin 3], [Fin 15, Fin 10, Fin 5]]),
               (''out/attack_a.png'', [[Fin 13, Fin 8, Fin 3], [Fin 15, Fin 10, Fin 5]])]\<rparr>"

definition zero_out :: batch_out where
  "zero_out =
     \<lparr>pre = 1, post = 1,
      trace = [Tensor \<lparr>lval = 1, lgrad = None\<rparr>, Tensor \<lparr>lval = 1, lgrad = None\<rparr>],
      adv = [[NaN, NaN], [NaN, NaN], [NaN, NaN]],
      files = [(''out/a.png'', [[Fin 13, Fin 8, Fin 3], [Fin 15, Fin 10, Fin 5]]),
               (''out/attack_a.png'', [[NaN, NaN, NaN], [NaN, NaN, NaN]])]\<rparr>"

definition one_args :: args where
  \<comment> \<open>the whole budget in a single iteration\<close>
  "one_args = \<lparr>epsilon = 2, num_attack_iter = 1, max_attack_batches = 2,
               save_path = ''out/'', clear_output = True\<rparr>"

definition one_out :: batch_out where
  "one_out =
     \<lparr>pre = 3 / 4, post = 3 / 4,
      trace = [Tensor \<lparr>lval = 3 / 4, lgrad = None\<rparr>],
      adv = [[Fin 2, Fin 1], [Fin 3, Fin 6], [Fin 6, Fin 6]],
      files = [(''out/a.png'', [[Fin 13, Fin 8, Fin 3], [Fin 15, Fin 10, Fin 5]]),
               (''out/attack_a.png'', [[Fin 15, Fin 8, Fin 5], [Fin 15, Fin 14, Fin 3]])]\<rparr>"

definition far_zero_model :: model where
  \<comment> \<open>as \<open>ex_model\<close>, but flat at one image that the iterations on \<open>ex_batch\<close> never reach\<close>
  "far_zero_model x data =
     (if x = [[Fin 100, Fin 100], [Fin 100, Fin 100], [Fin 100, Fin 100]]
      then zero_model x data else ex_model x data)"

definition bad_batch :: batch where
  "bad_batch = \<lparr>img = [[1, 2], [3, 4], [5, 6]], filename = ''data/b.png'',
                mean = [1, 2, 3], std = [2, 2, 2]\<rparr>"

definition late_model :: model where
  \<comment> \<open>as \<open>ex_model\<close>, but without accuracy once the image of \<open>data/b.png\<close> has moved\<close>
  "late_model x data =
     (if filename data = ''data/b.png'' \<and> x \<noteq> map (map Fin) (img data)
      then no_acc_model x data else ex_model x data)"

definition late_loader :: "unit \<Rightarrow> int \<Rightarrow> int \<Rightarrow> int \<Rightarrow> batch list" where
  "late_loader d b k g = [ex_batch, bad_batch, ex_batch]"

definition ready_world :: world where
  \<comment> \<open>\<open>ex_world\<close> after lines 239 to 247 with \<open>clear_output\<close> set\<close>
  "ready_world = \<lparr>cfg = \<lparr>workers_per_gpu = 0, imgs_per_gpu = 1, gpus = 1\<rparr>,
                  dir = [], written = []\<rparr>"

section \<open>Before the loop: the configuration and the output directory\<close>




lemma prepare_cfg:
  "prepare a w = (w', r) \<Longrightarrow>
     cfg w' = (cfg w)\<lparr>workers_per_gpu := 0, imgs_per_gpu := 1\<rparr> \<and> written w' = written w"
  by (auto simp: prepare_def Let_def split: if_splits prod.splits)


lemma prepare_override:
  "prepare a (w\<lparr>cfg := (cfg w)\<lparr>workers_per_gpu := x, imgs_per_gpu := y\<rparr>\<rparr>) = prepare a w"
  by (simp add: prepare_def)

lemma attack_batches_frame:
  "attack_batches m a mb i ds t w = (w', r) \<Longrightarrow> cfg w' = cfg w \<and> dir w' = dir w"
proof (induction ds arbitrary: i t w)
  case Nil
  then show ?case by auto
next
  case (Cons d ds)
  show ?case
  proof (cases "i \<ge> mb")
    case True
    with Cons.prems show ?thesis by auto
  next
    case False
    show ?thesis
    proof (cases "attack_batch m a d")
      case (Inl e)
      with False Cons.prems show ?thesis by auto
    next
      case (Inr out)
      with False Cons.prems have
        "attack_batches m a mb (i + 1) ds
           \<lparr>acc_before_attack = acc_before_attack t + pre out,
            acc_under_attack = acc_under_attack t + post out,
            pbar_outer = Suc (pbar_outer t)\<rparr>
           (w\<lparr>written := written w @ files out\<rparr>) = (w', r)" by simp
      from Cons.IH[OF this] show ?thesis by simp
    qed
  qed
qed

lemma attack_detector_frame:
  assumes "prepare a w = (w1, r)"
  shows "cfg (fst (attack_detector a m bdl ds w)) = cfg w1 \<and>
         dir (fst (attack_detector a m bdl ds w)) = dir w1"
proof (cases r)
  case (Inl e)
  with assms show ?thesis by (simp add: attack_detector_def)
next
  case (Inr u)
  let ?ld = "bdl ds (imgs_per_gpu (cfg w1)) (workers_per_gpu (cfg w1)) (gpus (cfg w1))"
  let ?mb = "min (int (length ?ld)) (max_attack_batches a)"
  let ?t0 = "\<lparr>acc_before_attack = 0, acc_under_attack = 0, pbar_outer = 0\<rparr>"
  obtain w2 r2 where l: "attack_batches m a ?mb 0 ?ld ?t0 w1 = (w2, r2)"
    by (cases "attack_batches m a ?mb 0 ?ld ?t0 w1")
  from attack_batches_frame[OF l] have f: "cfg w2 = cfg w1" "dir w2 = dir w1" by simp_all
  have "fst (attack_detector a m bdl ds w) = w2"
    using assms Inr l by (cases r2) (simp_all add: attack_detector_def Let_def)
  with f show ?thesis by simp
qed

lemma ex_prepare: "prepare ex_args ex_world = (ready_world, Inr ())"
  by (simp add: prepare_def ex_args_def ex_world_def ready_world_def)



text \<open>
  Claim C10. \<open>attack_detector\<close> writes \<open>workers_per_gpu = 0\<close> and \<open>imgs_per_gpu = 1\<close> into
  the configuration it was given, whatever the caller had set, and leaves them there
  whether the run ends normally or with an error: the loader is built with batch
  size 1 and no worker, and the outcome does not depend on the caller's two values.
\<close>

theorem attack_detector_overrides_cfg:
  "workers_per_gpu (cfg (fst (attack_detector a m bdl ds w))) = 0 \<and>
   imgs_per_gpu (cfg (fst (attack_detector a m bdl ds w))) = 1 \<and>
   gpus (cfg (fst (attack_detector a m bdl ds w))) = gpus (cfg w) \<and>
   attack_detector a m bdl ds w = attack_detector a m (\<lambda>d b k g. bdl d 1 0 g) ds w \<and>
   attack_detector a m bdl ds (w\<lparr>cfg := (cfg w)\<lparr>workers_per_gpu := x, imgs_per_gpu := y\<rparr>\<rparr>) =
     attack_detector a m bdl ds w"
proof -
  obtain w1 r where p: "prepare a w = (w1, r)" by (cases "prepare a w")
  from prepare_cfg[OF p]
  have c: "cfg w1 = (cfg w)\<lparr>workers_per_gpu := 0, imgs_per_gpu := 1\<rparr>" by simp
  from attack_detector_frame[OF p, where m=m and bdl=bdl and ds=ds]
  have "cfg (fst (attack_detector a m bdl ds w)) = cfg w1" by simp
  with c have 1: "workers_per_gpu (cfg (fst (attack_detector a m bdl ds w))) = 0"
    and 2: "imgs_per_gpu (cfg (fst (attack_detector a m bdl ds w))) = 1"
    and 3: "gpus (cfg (fst (attack_detector a m bdl ds w))) = gpus (cfg w)" by simp_all
  have 4: "attack_detector a m bdl ds w = attack_detector a m (\<lambda>d b k g. bdl d 1 0 g) ds w"
    using p c by (cases r) (simp_all add: attack_detector_def)
  have 5: "attack_detector a m bdl ds
             (w\<lparr>cfg := (cfg w)\<lparr>workers_per_gpu := x, imgs_per_gpu := y\<rparr>\<rparr>) =
           attack_detector a m bdl ds w"
    unfolding attack_detector_def prepare_override ..
  from 1 2 3 4 5 show ?thesis by (intro conjI)
qed

section \<open>One iteration: the step of line 278\<close>

lemma attack_iteration_InrD:
  assumes "attack_iteration m a data st = Inr st'"
  shows "\<exists>v g mx.
    getitem (m (imgs st) data) ''acc'' = Inr v \<and>
    backward_keys (m (imgs st) data) (remove1 ''acc'' (map fst (m (imgs st) data))) None
      = Inr (Some g) \<and>
    max_abs g = Some mx \<and> num_attack_iter a \<noteq> 0 \<and>
    acc_list st' = acc_list st @ [v] \<and>
    imgs st' =
      map2 (map2 (\<lambda>p d. fadd p (fdiv (epsilon a / real_of_int (num_attack_iter a) * d) mx)))
        (imgs st) g"
  using assms unfolding attack_iteration_def step_def Let_def
  by (auto split: sum.splits option.splits if_splits)

lemma foldl_max_Max: "foldl max (x::real) ys = Max (set (x # ys))"
proof (induction ys arbitrary: x)
  case Nil
  then show ?case by simp
next
  case (Cons y ys)
  have "foldl max x (y # ys) = Max (insert (max x y) (set ys))"
    using Cons.IH[of "max x y"] by simp
  also have "\<dots> = Max (insert x (insert y (set ys)))"
    by (cases "ys = []") (simp_all add: max.assoc)
  finally show ?case by simp
qed

lemma max_abs_Max:
  assumes "max_abs g = Some mx"
  shows "concat g \<noteq> [] \<and> mx = Max (abs ` set (concat g))"
proof -
  from assms obtain x xs where c: "concat g = x # xs"
    and mx: "mx = foldl max \<bar>x\<bar> (map abs xs)"
    by (auto simp: max_abs_def split: list.splits)
  have "mx = Max (set (\<bar>x\<bar> # map abs xs))" unfolding mx by (rule foldl_max_Max)
  also have "set (\<bar>x\<bar> # map abs xs) = abs ` set (concat g)" by (simp add: c)
  finally show ?thesis using c by simp
qed

lemma max_abs_elem:
  assumes "max_abs g = Some mx" and "d \<in> set (concat g)"
  shows "\<bar>d\<bar> \<le> mx"
proof -
  from assms(2) have "\<bar>d\<bar> \<in> abs ` set (concat g)" by (rule imageI)
  moreover have "finite (abs ` set (concat g))" by simp
  ultimately have "\<bar>d\<bar> \<le> Max (abs ` set (concat g))" by (rule Max_ge[rotated])
  with max_abs_Max[OF assms(1)] show ?thesis by simp
qed

lemma max_abs_bound:
  assumes "max_abs g = Some mx" and "c < length g" and "i < length (g ! c)"
  shows "\<bar>g ! c ! i\<bar> \<le> mx"
proof -
  from assms(2,3) have "g ! c ! i \<in> set (concat g)" by (auto intro!: bexI[of _ "g ! c"])
  with assms(1) show ?thesis by (rule max_abs_elem)
qed

lemma fadd_Fin_iff: "fadd p q = Fin y \<longleftrightarrow> (\<exists>a b. p = Fin a \<and> q = Fin b \<and> y = a + b)"
  by (cases p; cases q) auto


lemma fdiv_Fin_iff: "fdiv a b = Fin y \<longleftrightarrow> (b \<noteq> 0 \<and> y = a / b)"
  by (auto simp: fdiv_def)

lemma pixel_step_bound:
  assumes "fadd p (fdiv (s * d) mx) = Fin y" and "\<bar>d\<bar> \<le> mx"
  shows "\<exists>x. p = Fin x \<and> \<bar>y - x\<bar> \<le> \<bar>s\<bar> \<and> mx \<noteq> 0"
proof -
  from assms(1) obtain x b where p: "p = Fin x" and b: "fdiv (s * d) mx = Fin b"
    and y: "y = x + b"
    by (auto simp: fadd_Fin_iff)
  from b have mx: "mx \<noteq> 0" and bq: "b = s * d / mx" by (simp_all add: fdiv_Fin_iff)
  from assms(2) mx have pos: "0 < mx" by linarith
  have "\<bar>d\<bar> / mx \<le> 1" using assms(2) pos by (simp add: divide_le_eq)
  then have "\<bar>s\<bar> * (\<bar>d\<bar> / mx) \<le> \<bar>s\<bar> * 1" by (intro mult_left_mono) simp_all
  moreover have "\<bar>b\<bar> = \<bar>s\<bar> * (\<bar>d\<bar> / mx)" using pos by (simp add: bq abs_mult)
  ultimately have "\<bar>b\<bar> \<le> \<bar>s\<bar>" by simp
  with p y mx show ?thesis by simp
qed

lemma pixel_step_cases:
  assumes "\<bar>d\<bar> \<le> mx"
  shows "fadd (Fin x) (fdiv (s * d) mx) = (if mx = 0 then NaN else Fin (x + s * d / mx))"
  using assms by (auto simp: fdiv_def)

lemma map2_map2_nth:
  assumes "c < length (map2 (map2 f) X G)" and "i < length (map2 (map2 f) X G ! c)"
  shows "c < length X \<and> c < length G \<and> i < length (X ! c) \<and> i < length (G ! c) \<and>
         map2 (map2 f) X G ! c ! i = f (X ! c ! i) (G ! c ! i)"
proof -
  from assms(1) have c: "c < length X" "c < length G" by simp_all
  then have row: "map2 (map2 f) X G ! c = map2 f (X ! c) (G ! c)" by simp
  with assms(2) have i: "i < length (X ! c)" "i < length (G ! c)" by simp_all
  then have "map2 f (X ! c) (G ! c) ! i = f (X ! c ! i) (G ! c ! i)" by simp
  with c i row show ?thesis by simp
qed

lemma attack_iteration_pixel:
  assumes "attack_iteration m a data st = Inr st'"
    and "c < length (imgs st')" and "i < length (imgs st' ! c)"
  shows "\<exists>g mx d.
     backward_keys (m (imgs st) data) (remove1 ''acc'' (map fst (m (imgs st) data))) None
       = Inr (Some g) \<and>
     max_abs g = Some mx \<and> \<bar>d\<bar> \<le> mx \<and> d = g ! c ! i \<and>
     c < length (imgs st) \<and> i < length (imgs st ! c) \<and>
     imgs st' ! c ! i =
       fadd (imgs st ! c ! i) (fdiv (epsilon a / real_of_int (num_attack_iter a) * d) mx)"
proof -
  let ?s = "epsilon a / real_of_int (num_attack_iter a)"
  from attack_iteration_InrD[OF assms(1)] obtain v g mx where
    g: "backward_keys (m (imgs st) data) (remove1 ''acc'' (map fst (m (imgs st) data))) None
          = Inr (Some g)"
    and mx: "max_abs g = Some mx"
    and im: "imgs st' = map2 (map2 (\<lambda>p d. fadd p (fdiv (?s * d) mx))) (imgs st) g"
    by blast
  from map2_map2_nth[OF assms(2,3)[unfolded im]] have
    b: "c < length (imgs st)" "c < length g" "i < length (imgs st ! c)" "i < length (g ! c)"
    and e: "imgs st' ! c ! i = fadd (imgs st ! c ! i) (fdiv (?s * (g ! c ! i)) mx)"
    unfolding im by simp_all
  from max_abs_bound[OF mx b(2,4)] have "\<bar>g ! c ! i\<bar> \<le> mx" .
  with g mx b e show ?thesis by blast
qed

lemma ex_iteration:
  "attack_iteration ex_model ex_args ex_batch (start ex_batch) =
     Inr \<lparr>imgs = [[Fin (3 / 2), Fin (3 / 2)], [Fin 3, Fin 5], [Fin (11 / 2), Fin 6]],
          acc_list = [Tensor \<lparr>lval = 3 / 4, lgrad = None\<rparr>]\<rparr>"
  by (simp add: attack_iteration_def step_def clear_graph_def fdiv_def start_def Let_def
       max_abs_def backward_def ex_model_def getitem_def ex_args_def ex_batch_def)

text \<open>
  Claim C3. An iteration that completes replaces the image by the image plus
  \<open>epsilon / num_attack_iter\<close> times the gradient that the backward calls have left on the
  image, divided by the maximum absolute value of that gradient: the gradient keeps its
  magnitudes relative to the maximum, it is not reduced to its sign.
\<close>

theorem attack_iteration_update:
  assumes "attack_iteration m a data st = Inr st'"
  shows "\<exists>g. backward_keys (m (imgs st) data) (remove1 ''acc'' (map fst (m (imgs st) data))) None
                = Inr (Some g) \<and>
              concat g \<noteq> [] \<and>
              imgs st' =
                map2 (map2 (\<lambda>p d. fadd p (fdiv (epsilon a / real_of_int (num_attack_iter a) * d)
                                              (Max (abs ` set (concat g))))))
                  (imgs st) g"
proof -
  let ?s = "epsilon a / real_of_int (num_attack_iter a)"
  from attack_iteration_InrD[OF assms] obtain v g mx where
    g: "backward_keys (m (imgs st) data) (remove1 ''acc'' (map fst (m (imgs st) data))) None
          = Inr (Some g)"
    and mx: "max_abs g = Some mx"
    and im: "imgs st' = map2 (map2 (\<lambda>p d. fadd p (fdiv (?s * d) mx))) (imgs st) g"
    by blast
  from max_abs_Max[OF mx] have "concat g \<noteq> []" "mx = Max (abs ` set (concat g))" by simp_all
  with g im show ?thesis by blast
qed

theorem attack_iteration_update_witness:
  "attack_iteration ex_model ex_args ex_batch (start ex_batch) =
     Inr \<lparr>imgs = [[Fin (3 / 2), Fin (3 / 2)], [Fin 3, Fin 5], [Fin (11 / 2), Fin 6]],
          acc_list = [Tensor \<lparr>lval = 3 / 4, lgrad = None\<rparr>]\<rparr> \<and>
   (\<exists>g. backward_keys (ex_model (imgs (start ex_batch)) ex_batch)
           (remove1 ''acc'' (map fst (ex_model (imgs (start ex_batch)) ex_batch))) None
           = Inr (Some g) \<and>
        concat g \<noteq> [] \<and>
        [[Fin (3 / 2), Fin (3 / 2)], [Fin 3, Fin 5], [Fin (11 / 2), Fin 6]] =
          map2 (map2 (\<lambda>p d. fadd p (fdiv (epsilon ex_args / real_of_int (num_attack_iter ex_args) * d)
                                        (Max (abs ` set (concat g))))))
            (imgs (start ex_batch)) g)"
  using attack_iteration_update[OF ex_iteration] ex_iteration by simp



section \<open>The iterations of one batch\<close>

lemma attack_iters_length:
  "attack_iters m a data k st = Inr st' \<Longrightarrow> length (acc_list st') = length (acc_list st) + k"
proof (induction k arbitrary: st)
  case 0
  then show ?case by simp
next
  case (Suc k)
  from Suc.prems obtain st1 where 1: "attack_iteration m a data st = Inr st1"
    and 2: "attack_iters m a data k st1 = Inr st'" by (auto split: sum.splits)
  from attack_iteration_InrD[OF 1] have "length (acc_list st1) = Suc (length (acc_list st))"
    by auto
  with Suc.IH[OF 2] show ?case by simp
qed

lemma attack_iters_hd:
  "attack_iters m a data k st = Inr st' \<Longrightarrow> acc_list st \<noteq> [] \<Longrightarrow>
     hd (acc_list st') = hd (acc_list st)"
proof (induction k arbitrary: st)
  case 0
  then show ?case by simp
next
  case (Suc k)
  from Suc.prems(1) obtain t where t1: "attack_iteration m a data st = Inr t"
    and t2: "attack_iters m a data k t = Inr st'" by (auto split: sum.splits)
  from attack_iteration_InrD[OF t1] obtain u where u: "acc_list t = acc_list st @ [u]" by blast
  with Suc.prems(2) have "acc_list t \<noteq> []" "hd (acc_list t) = hd (acc_list st)" by simp_all
  with Suc.IH[OF t2] show ?case by simp
qed

lemma attack_iters_add:
  "attack_iters m a data (j + k) st =
     (case attack_iters m a data j st of Inl e \<Rightarrow> Inl e | Inr s \<Rightarrow> attack_iters m a data k s)"
  by (induction j arbitrary: st) (auto split: sum.splits)

lemma attack_iters_snoc:
  assumes "attack_iters m a data (Suc k) st = Inr st'"
  shows "\<exists>s. attack_iters m a data k st = Inr s \<and> attack_iteration m a data s = Inr st'"
proof -
  have "attack_iters m a data (k + 1) st =
     (case attack_iters m a data k st of Inl e \<Rightarrow> Inl e | Inr s \<Rightarrow> attack_iters m a data 1 s)"
    by (rule attack_iters_add)
  with assms show ?thesis by (auto split: sum.splits)
qed

lemma attack_iters_fin:
  assumes "attack_iters m a data k st = Inr st'"
    and "c < length (imgs st')" and "i < length (imgs st' ! c)"
    and "imgs st' ! c ! i = Fin y"
  shows "c < length (imgs st) \<and> i < length (imgs st ! c) \<and>
     (\<exists>x. imgs st ! c ! i = Fin x \<and>
        \<bar>y - x\<bar> \<le> real k * \<bar>epsilon a / real_of_int (num_attack_iter a)\<bar>)"
  using assms
proof (induction k arbitrary: st)
  case 0
  then show ?case by simp
next
  case (Suc k)
  let ?s = "epsilon a / real_of_int (num_attack_iter a)"
  from Suc.prems(1) obtain st1 where 1: "attack_iteration m a data st = Inr st1"
    and 2: "attack_iters m a data k st1 = Inr st'" by (auto split: sum.splits)
  from Suc.IH[OF 2 Suc.prems(2,3,4)] obtain x1 where
    b1: "c < length (imgs st1)" "i < length (imgs st1 ! c)"
    and x1: "imgs st1 ! c ! i = Fin x1" and d1: "\<bar>y - x1\<bar> \<le> real k * \<bar>?s\<bar>" by blast
  from attack_iteration_pixel[OF 1 b1] obtain mx d where
    d: "\<bar>d\<bar> \<le> mx" and b: "c < length (imgs st)" "i < length (imgs st ! c)"
    and e: "imgs st1 ! c ! i = fadd (imgs st ! c ! i) (fdiv (?s * d) mx)" by blast
  from pixel_step_bound[OF e[unfolded x1, symmetric] d] obtain x where
    x: "imgs st ! c ! i = Fin x" and dx: "\<bar>x1 - x\<bar> \<le> \<bar>?s\<bar>" by blast
  have "\<bar>y - x\<bar> \<le> \<bar>y - x1\<bar> + \<bar>x1 - x\<bar>" by linarith
  also have "\<dots> \<le> real k * \<bar>?s\<bar> + \<bar>?s\<bar>" using d1 dx by linarith
  also have "\<dots> = real (Suc k) * \<bar>?s\<bar>"
  proof -
    have "\<And>t::real. real k * t + t = real (Suc k) * t" by (simp add: algebra_simps)
    then show ?thesis .
  qed
  finally show ?case using b x by blast
qed

lemma attack_iters_visited_fin:
  assumes "attack_iters m a data k st0 = Inr st'"
    and "\<forall>row \<in> set (imgs st0). \<forall>p \<in> set row. \<exists>x. p = Fin x"
    and "\<forall>j s g. j < k \<and> attack_iters m a data j st0 = Inr s \<and>
            backward_keys (m (imgs s) data) (remove1 ''acc'' (map fst (m (imgs s) data))) None
              = Inr (Some g) \<longrightarrow> max_abs g \<noteq> Some 0"
  shows "\<forall>row \<in> set (imgs st'). \<forall>p \<in> set row. \<exists>x. p = Fin x"
  using assms(1,3)
proof (induction k arbitrary: st')
  case 0
  with assms(2) show ?case by simp
next
  case (Suc k)
  let ?s = "epsilon a / real_of_int (num_attack_iter a)"
  from attack_iters_snoc[OF Suc.prems(1)] obtain s where
    1: "attack_iters m a data k st0 = Inr s" and 2: "attack_iteration m a data s = Inr st'"
    by blast
  have "\<forall>j s g. j < k \<and> attack_iters m a data j st0 = Inr s \<and>
            backward_keys (m (imgs s) data) (remove1 ''acc'' (map fst (m (imgs s) data))) None
              = Inr (Some g) \<longrightarrow> max_abs g \<noteq> Some 0"
    using Suc.prems(2) by (meson less_Suc_eq)
  from Suc.IH[OF 1 this] have fin: "\<forall>row \<in> set (imgs s). \<forall>p \<in> set row. \<exists>x. p = Fin x" .
  show ?case
    unfolding all_set_conv_all_nth
  proof (intro allI impI)
    fix c i assume cb: "c < length (imgs st')" and ib: "i < length (imgs st' ! c)"
    from attack_iteration_pixel[OF 2 cb ib] obtain g mx d where
      g: "backward_keys (m (imgs s) data) (remove1 ''acc'' (map fst (m (imgs s) data))) None
            = Inr (Some g)"
      and mx: "max_abs g = Some mx"
      and d: "\<bar>d\<bar> \<le> mx" and b: "c < length (imgs s)" "i < length (imgs s ! c)"
      and e: "imgs st' ! c ! i = fadd (imgs s ! c ! i) (fdiv (?s * d) mx)" by blast
    from Suc.prems(2) 1 g have "max_abs g \<noteq> Some 0" by blast
    with mx have "mx \<noteq> 0" by simp
    moreover from fin b obtain x where "imgs s ! c ! i = Fin x"
      by (auto simp: all_set_conv_all_nth)
    ultimately show "\<exists>x. imgs st' ! c ! i = Fin x"
      using e pixel_step_cases[OF d, of x ?s] by auto
  qed
qed

lemma attack_batch_InrD:
  assumes "attack_batch m a data = Inr out"
  shows "\<exists>st. attack_iters m a data (nat (num_attack_iter a)) (start data) = Inr st \<and>
     acc_list st \<noteq> [] \<and>
     acc_value (hd (acc_list st)) = Inr (pre out) \<and>
     acc_value (last (acc_list st)) = Inr (post out) \<and>
     trace out = acc_list st \<and> adv out = imgs st"
proof -
  let ?r = "attack_iters m a data (nat (num_attack_iter a)) (start data)"
  show ?thesis
  proof (cases ?r)
    case (Inl e)
    with assms show ?thesis by (simp add: attack_batch_def split: prod.splits)
  next
    case (Inr st)
    show ?thesis
    proof (cases "acc_list st")
      case Nil
      with Inr assms show ?thesis by (simp add: attack_batch_def)
    next
      case (Cons v0 vs)
      with Inr assms show ?thesis
        by (auto simp: attack_batch_def split: sum.splits prod.splits)
    qed
  qed
qed

lemma attack_batch_iter_pos:
  assumes "attack_batch m a data = Inr out"
  shows "0 < num_attack_iter a \<and> int (length (trace out)) = num_attack_iter a"
proof -
  from attack_batch_InrD[OF assms] obtain st where
    it: "attack_iters m a data (nat (num_attack_iter a)) (start data) = Inr st"
    and ne: "acc_list st \<noteq> []" and tr: "trace out = acc_list st" by blast
  from attack_iters_length[OF it] have l: "length (acc_list st) = nat (num_attack_iter a)"
    by (simp add: start_def)
  with ne have "0 < nat (num_attack_iter a)" by (cases "acc_list st") auto
  with l tr show ?thesis by simp
qed

lemma start_pixels:
  "c < length (imgs (start data)) \<Longrightarrow> i < length (imgs (start data) ! c) \<Longrightarrow>
     imgs (start data) ! c ! i = Fin (img data ! c ! i)"
  by (simp add: start_def)

lemma start_fin: "\<forall>row \<in> set (imgs (start data)). \<forall>p \<in> set row. \<exists>x. p = Fin x"
  by (auto simp: start_def)

lemma budget_total:
  assumes "0 < (n::int)"
  shows "real (nat n) * \<bar>e / real_of_int n\<bar> = \<bar>e\<bar>"
proof -
  from assms have "real (nat n) = real_of_int n" by simp
  moreover from assms have "\<bar>e / real_of_int n\<bar> = \<bar>e\<bar> / real_of_int n" by simp
  ultimately show ?thesis using assms by simp
qed

lemma attack_batch_fin_bound:
  assumes "attack_batch m a data = Inr out"
    and "c < length (adv out)" and "i < length (adv out ! c)"
    and "adv out ! c ! i = Fin y"
  shows "\<bar>y - img data ! c ! i\<bar> \<le> \<bar>epsilon a\<bar>"
proof -
  from attack_batch_InrD[OF assms(1)] obtain st where
    it: "attack_iters m a data (nat (num_attack_iter a)) (start data) = Inr st"
    and adv: "adv out = imgs st" by blast
  from attack_batch_iter_pos[OF assms(1)] have n: "0 < num_attack_iter a" by simp
  from attack_iters_fin[OF it assms(2,3,4)[unfolded adv]] obtain x where
    b: "c < length (imgs (start data))" "i < length (imgs (start data) ! c)"
    and x: "imgs (start data) ! c ! i = Fin x"
    and d: "\<bar>y - x\<bar> \<le>
              real (nat (num_attack_iter a)) * \<bar>epsilon a / real_of_int (num_attack_iter a)\<bar>"
    by blast
  from start_pixels[OF b] x have "x = img data ! c ! i" by simp
  with d budget_total[OF n, of "epsilon a"] show ?thesis by simp
qed

lemma ex_grad:
  "backward_keys (ex_model x d) (remove1 ''acc'' (map fst (ex_model x d))) None
     = Inr (Some [[2, -2], [0, 4], [2, 0]])"
  by (simp add: ex_model_def getitem_def backward_def)

lemma ex_max: "max_abs [[2, -2], [0, 4], [2, 0]] = Some 4"
  by (simp add: max_abs_def)

lemma ex_iters:
  "attack_iters ex_model ex_args ex_batch (nat (num_attack_iter ex_args)) (start ex_batch) =
     Inr \<lparr>imgs = [[Fin 2, Fin 1], [Fin 3, Fin 6], [Fin 6, Fin 6]],
          acc_list = [Tensor \<lparr>lval = 3 / 4, lgrad = None\<rparr>,
                      Tensor \<lparr>lval = 1 / 4, lgrad = None\<rparr>]\<rparr>"
proof -
  have n: "nat (num_attack_iter ex_args) = Suc (Suc 0)" by (simp add: ex_args_def)
  have 2: "attack_iteration ex_model ex_args ex_batch
      \<lparr>imgs = [[Fin (3 / 2), Fin (3 / 2)], [Fin 3, Fin 5], [Fin (11 / 2), Fin 6]],
       acc_list = [Tensor \<lparr>lval = 3 / 4, lgrad = None\<rparr>]\<rparr> =
     Inr \<lparr>imgs = [[Fin 2, Fin 1], [Fin 3, Fin 6], [Fin 6, Fin 6]],
          acc_list = [Tensor \<lparr>lval = 3 / 4, lgrad = None\<rparr>,
                      Tensor \<lparr>lval = 1 / 4, lgrad = None\<rparr>]\<rparr>"
    by (simp add: attack_iteration_def step_def clear_graph_def fdiv_def Let_def
       max_abs_def backward_def ex_model_def getitem_def ex_args_def ex_batch_def)
  show ?thesis unfolding n by (simp add: ex_iteration 2)
qed

lemma ex_attack_batch: "attack_batch ex_model ex_args ex_batch = Inr ex_out"
  using ex_iters
  by (simp add: attack_batch_def start_def acc_value_def denorm_channel_def denorm_pixel_def
        reorder_def basename_def ex_batch_def ex_args_def ex_out_def)

lemma single_attack_batch: "attack_batch ex_model single_args ex_batch = Inr single_out"
proof -
  have n: "nat (num_attack_iter single_args) = Suc 0" by (simp add: single_args_def)
  have 1: "attack_iteration ex_model single_args ex_batch (start ex_batch) =
     Inr \<lparr>imgs = [[Fin 1, Fin 2], [Fin 3, Fin 4], [Fin 5, Fin 6]],
          acc_list = [Tensor \<lparr>lval = 3 / 4, lgrad = None\<rparr>]\<rparr>"
    by (simp add: attack_iteration_def step_def clear_graph_def fdiv_def start_def Let_def
       max_abs_def backward_def ex_model_def getitem_def single_args_def ex_batch_def)
  have "attack_iters ex_model single_args ex_batch (nat (num_attack_iter single_args))
          (start ex_batch) =
     Inr \<lparr>imgs = [[Fin 1, Fin 2], [Fin 3, Fin 4], [Fin 5, Fin 6]],
          acc_list = [Tensor \<lparr>lval = 3 / 4, lgrad = None\<rparr>]\<rparr>"
    unfolding n by (simp add: 1)
  then show ?thesis
    by (simp add: attack_batch_def start_def acc_value_def denorm_channel_def denorm_pixel_def
        reorder_def basename_def ex_batch_def single_args_def single_out_def)
qed

lemma zero_iters:
  "attack_iters zero_model ex_args ex_batch (nat (num_attack_iter ex_args)) (start ex_batch) =
     Inr \<lparr>imgs = [[NaN, NaN], [NaN, NaN], [NaN, NaN]],
          acc_list = [Tensor \<lparr>lval = 1, lgrad = None\<rparr>, Tensor \<lparr>lval = 1, lgrad = None\<rparr>]\<rparr>"
proof -
  have n: "nat (num_attack_iter ex_args) = Suc (Suc 0)" by (simp add: ex_args_def)
  have 1: "attack_iteration zero_model ex_args ex_batch (start ex_batch) =
     Inr \<lparr>imgs = [[NaN, NaN], [NaN, NaN], [NaN, NaN]],
          acc_list = [Tensor \<lparr>lval = 1, lgrad = None\<rparr>]\<rparr>"
    by (simp add: attack_iteration_def step_def clear_graph_def fdiv_def start_def Let_def
       max_abs_def backward_def zero_model_def getitem_def ex_args_def ex_batch_def)
  have 2: "attack_iteration zero_model ex_args ex_batch
      \<lparr>imgs = [[NaN, NaN], [NaN, NaN], [NaN, NaN]],
       acc_list = [Tensor \<lparr>lval = 1, lgrad = None\<rparr>]\<rparr> =
     Inr \<lparr>imgs = [[NaN, NaN], [NaN, NaN], [NaN, NaN]],
          acc_list = [Tensor \<lparr>lval = 1, lgrad = None\<rparr>, Tensor \<lparr>lval = 1, lgrad = None\<rparr>]\<rparr>"
    by (simp add: attack_iteration_def step_def clear_graph_def fdiv_def Let_def
       max_abs_def backward_def zero_model_def getitem_def ex_args_def ex_batch_def)
  show ?thesis unfolding n by (simp add: 1 2)
qed

lemma zero_attack_batch: "attack_batch zero_model ex_args ex_batch = Inr zero_out"
  using zero_iters
  by (simp add: attack_batch_def start_def acc_value_def denorm_channel_def denorm_pixel_def
        reorder_def basename_def ex_batch_def ex_args_def zero_out_def)

lemma far_iteration:
  "attack_iteration far_zero_model ex_args ex_batch (start ex_batch) =
     Inr \<lparr>imgs = [[Fin (3 / 2), Fin (3 / 2)], [Fin 3, Fin 5], [Fin (11 / 2), Fin 6]],
          acc_list = [Tensor \<lparr>lval = 3 / 4, lgrad = None\<rparr>]\<rparr>"
  by (simp add: attack_iteration_def step_def clear_graph_def fdiv_def start_def Let_def
       max_abs_def backward_def far_zero_model_def ex_model_def getitem_def ex_args_def
       ex_batch_def)

lemma far_iters:
  "attack_iters far_zero_model ex_args ex_batch (nat (num_attack_iter ex_args)) (start ex_batch) =
     Inr \<lparr>imgs = [[Fin 2, Fin 1], [Fin 3, Fin 6], [Fin 6, Fin 6]],
          acc_list = [Tensor \<lparr>lval = 3 / 4, lgrad = None\<rparr>,
                      Tensor \<lparr>lval = 1 / 4, lgrad = None\<rparr>]\<rparr>"
proof -
  have n: "nat (num_attack_iter ex_args) = Suc (Suc 0)" by (simp add: ex_args_def)
  have 2: "attack_iteration far_zero_model ex_args ex_batch
      \<lparr>imgs = [[Fin (3 / 2), Fin (3 / 2)], [Fin 3, Fin 5], [Fin (11 / 2), Fin 6]],
       acc_list = [Tensor \<lparr>lval = 3 / 4, lgrad = None\<rparr>]\<rparr> =
     Inr \<lparr>imgs = [[Fin 2, Fin 1], [Fin 3, Fin 6], [Fin 6, Fin 6]],
          acc_list = [Tensor \<lparr>lval = 3 / 4, lgrad = None\<rparr>,
                      Tensor \<lparr>lval = 1 / 4, lgrad = None\<rparr>]\<rparr>"
    by (simp add: attack_iteration_def step_def clear_graph_def fdiv_def Let_def
       max_abs_def backward_def far_zero_model_def ex_model_def getitem_def ex_args_def
       ex_batch_def)
  show ?thesis unfolding n by (simp add: far_iteration 2)
qed

lemma far_attack_batch: "attack_batch far_zero_model ex_args ex_batch = Inr ex_out"
  using far_iters
  by (simp add: attack_batch_def start_def acc_value_def denorm_channel_def denorm_pixel_def
        reorder_def basename_def ex_batch_def ex_args_def ex_out_def)

lemma far_zero_somewhere:
  "backward_keys (far_zero_model [[Fin 100, Fin 100], [Fin 100, Fin 100], [Fin 100, Fin 100]] ex_batch)
     (remove1 ''acc'' (map fst (far_zero_model [[Fin 100, Fin 100], [Fin 100, Fin 100], [Fin 100, Fin 100]] ex_batch))) None
     = Inr (Some [[0, 0], [0, 0], [0, 0]])"
  by (simp add: far_zero_model_def zero_model_def getitem_def backward_def)

lemma far_visited:
  "\<forall>j s g. j < nat (num_attack_iter ex_args) \<and>
      attack_iters far_zero_model ex_args ex_batch j (start ex_batch) = Inr s \<and>
      backward_keys (far_zero_model (imgs s) ex_batch)
        (remove1 ''acc'' (map fst (far_zero_model (imgs s) ex_batch))) None = Inr (Some g)
      \<longrightarrow> max_abs g \<noteq> Some 0"
proof (intro allI impI)
  fix j s g
  assume h: "j < nat (num_attack_iter ex_args) \<and>
      attack_iters far_zero_model ex_args ex_batch j (start ex_batch) = Inr s \<and>
      backward_keys (far_zero_model (imgs s) ex_batch)
        (remove1 ''acc'' (map fst (far_zero_model (imgs s) ex_batch))) None = Inr (Some g)"
  then have "j < 2" by (simp add: ex_args_def)
  then have "j = 0 \<or> j = Suc 0" by auto
  then have "imgs s = [[Fin 1, Fin 2], [Fin 3, Fin 4], [Fin 5, Fin 6]] \<or>
             imgs s = [[Fin (3 / 2), Fin (3 / 2)], [Fin 3, Fin 5], [Fin (11 / 2), Fin 6]]"
  proof
    assume "j = 0"
    with h have "s = start ex_batch" by simp
    then show ?thesis by (simp add: start_def ex_batch_def)
  next
    assume "j = Suc 0"
    with h far_iteration show ?thesis by auto
  qed
  then have "far_zero_model (imgs s) ex_batch = ex_model (imgs s) ex_batch"
    by (auto simp: far_zero_model_def)
  with h have "g = [[2, -2], [0, 4], [2, 0]]" by (simp add: ex_grad)
  with ex_max show "max_abs g \<noteq> Some 0" by simp
qed

text \<open>
  Claim C1, as the code has it. Gradient entries are finite reals here and the
  arithmetic is exact. When none of the iterations run on the batch meets a gradient
  whose maximum absolute value is zero, every pixel of the image that leaves the
  iterations differs from the pixel of the batch by at most \<open>\<bar>epsilon\<bar>\<close>, whatever the
  number of iterations: each iteration moves a pixel by at most
  \<open>\<bar>epsilon\<bar> / num_attack_iter\<close>. Only the images the iterations visit matter; what the
  gradient is elsewhere does not. (A gradient that is zero everywhere turns the pixels
  into NaN, for which no bound holds.)
\<close>

theorem perturbation_within_budget:
  assumes "attack_batch m a data = Inr out"
    and "c < length (adv out)" and "i < length (adv out ! c)"
    and "\<forall>j s g. j < nat (num_attack_iter a) \<and>
            attack_iters m a data j (start data) = Inr s \<and>
            backward_keys (m (imgs s) data) (remove1 ''acc'' (map fst (m (imgs s) data))) None
              = Inr (Some g) \<longrightarrow> max_abs g \<noteq> Some 0"
  shows "fle (fabs (fsub (adv out ! c ! i) (Fin (img data ! c ! i)))) (Fin \<bar>epsilon a\<bar>)"
proof -
  from attack_batch_InrD[OF assms(1)] obtain st where
    it: "attack_iters m a data (nat (num_attack_iter a)) (start data) = Inr st"
    and adv: "adv out = imgs st" by blast
  from attack_iters_visited_fin[OF it start_fin assms(4)] assms(2,3)
  obtain y where y: "adv out ! c ! i = Fin y" by (auto simp: adv all_set_conv_all_nth)
  from attack_batch_fin_bound[OF assms(1,2,3) y] show ?thesis by (simp add: y)
qed

theorem perturbation_within_budget_witness:
  "attack_batch far_zero_model ex_args ex_batch = Inr ex_out \<and>
   adv ex_out ! 1 ! 1 = Fin 6 \<and> img ex_batch ! 1 ! 1 = 4 \<and> epsilon ex_args = 2 \<and>
   fle (fabs (fsub (adv ex_out ! 1 ! 1) (Fin (img ex_batch ! 1 ! 1)))) (Fin \<bar>epsilon ex_args\<bar>)"
proof -
  have b: "1 < length (adv ex_out)" "1 < length (adv ex_out ! 1)" by (simp_all add: ex_out_def)
  from perturbation_within_budget[OF far_attack_batch b far_visited] far_attack_batch
  show ?thesis by (simp add: ex_out_def ex_batch_def ex_args_def)
qed

theorem perturbation_nan_counterexample:
  "attack_batch zero_model ex_args ex_batch = Inr zero_out \<and>
   adv zero_out ! 0 ! 0 = NaN \<and>
   \<not> fle (fabs (fsub (adv zero_out ! 0 ! 0) (Fin (img ex_batch ! 0 ! 0)))) (Fin (epsilon ex_args))"
  using zero_attack_batch by (simp add: zero_out_def)



lemma one_attack_batch: "attack_batch ex_model one_args ex_batch = Inr one_out"
proof -
  have n: "nat (num_attack_iter one_args) = Suc 0" by (simp add: one_args_def)
  have 1: "attack_iteration ex_model one_args ex_batch (start ex_batch) =
     Inr \<lparr>imgs = [[Fin 2, Fin 1], [Fin 3, Fin 6], [Fin 6, Fin 6]],
          acc_list = [Tensor \<lparr>lval = 3 / 4, lgrad = None\<rparr>]\<rparr>"
    by (simp add: attack_iteration_def step_def clear_graph_def fdiv_def start_def Let_def
       max_abs_def backward_def ex_model_def getitem_def one_args_def ex_batch_def)
  have "attack_iters ex_model one_args ex_batch (nat (num_attack_iter one_args))
          (start ex_batch) =
     Inr \<lparr>imgs = [[Fin 2, Fin 1], [Fin 3, Fin 6], [Fin 6, Fin 6]],
          acc_list = [Tensor \<lparr>lval = 3 / 4, lgrad = None\<rparr>]\<rparr>"
    unfolding n by (simp add: 1)
  then show ?thesis
    by (simp add: attack_batch_def start_def acc_value_def denorm_channel_def denorm_pixel_def
        reorder_def basename_def ex_batch_def one_args_def one_out_def)
qed

text \<open>
  Claim C4, as the code has it. For a batch that is processed to its end, the trace
  holds exactly \<open>num_attack_iter\<close> values, one appended by each iteration at its start,
  before the step of that iteration. Its first value is the accuracy the model reports
  on the image of the batch, and is what the batch adds to the total before attack.
  Its last value is what the batch adds to the total under attack; it is the accuracy
  read at the start of the last iteration, on the image that \<open>num_attack_iter - 1\<close>
  steps have produced. The last step then yields the image that is written out, and
  that image is not scored.
\<close>

theorem acc_list_length:
  assumes "attack_batch m a data = Inr out"
  shows "int (length (trace out)) = num_attack_iter a \<and>
         getitem (m (map (map Fin) (img data)) data) ''acc'' = Inr (hd (trace out)) \<and>
         acc_value (hd (trace out)) = Inr (pre out) \<and>
         acc_value (last (trace out)) = Inr (post out) \<and>
         (\<exists>s. attack_iters m a data (nat (num_attack_iter a) - 1) (start data) = Inr s \<and>
              getitem (m (imgs s) data) ''acc'' = Inr (last (trace out)) \<and>
              attack_iteration m a data s = Inr \<lparr>imgs = adv out, acc_list = trace out\<rparr>)"
proof -
  from attack_batch_InrD[OF assms] obtain st where
    it: "attack_iters m a data (nat (num_attack_iter a)) (start data) = Inr st"
    and pre: "acc_value (hd (acc_list st)) = Inr (pre out)"
    and post: "acc_value (last (acc_list st)) = Inr (post out)"
    and tr: "trace out = acc_list st" and adv: "adv out = imgs st" by blast
  from attack_batch_iter_pos[OF assms] have n: "0 < num_attack_iter a"
    and len: "int (length (trace out)) = num_attack_iter a" by simp_all
  from n obtain k where k: "nat (num_attack_iter a) = Suc k"
    by (cases "nat (num_attack_iter a)") auto
  from it[unfolded k] obtain s1 where 1: "attack_iteration m a data (start data) = Inr s1"
    and 2: "attack_iters m a data k s1 = Inr st" by (auto split: sum.splits)
  from attack_iteration_InrD[OF 1] obtain v where
    v: "getitem (m (imgs (start data)) data) ''acc'' = Inr v" and a1: "acc_list s1 = [v]"
    by (auto simp: start_def)
  from attack_iters_hd[OF 2] a1 have "hd (acc_list st) = v" by simp
  with v have first: "getitem (m (map (map Fin) (img data)) data) ''acc'' = Inr (hd (trace out))"
    by (simp add: tr start_def)
  from attack_iters_snoc[OF it[unfolded k]] obtain s where
    s1: "attack_iters m a data k (start data) = Inr s"
    and s2: "attack_iteration m a data s = Inr st"
    by blast
  from attack_iteration_InrD[OF s2] obtain u where
    "getitem (m (imgs s) data) ''acc'' = Inr u" "acc_list st = acc_list s @ [u]" by blast
  then have g: "getitem (m (imgs s) data) ''acc'' = Inr (last (trace out))" by (simp add: tr)
  have "st = \<lparr>imgs = adv out, acc_list = trace out\<rparr>" by (simp add: tr adv)
  with s2 have f: "attack_iteration m a data s = Inr \<lparr>imgs = adv out, acc_list = trace out\<rparr>"
    by simp
  from s1 k g f have lastc:
    "\<exists>s. attack_iters m a data (nat (num_attack_iter a) - 1) (start data) = Inr s \<and>
         getitem (m (imgs s) data) ''acc'' = Inr (last (trace out)) \<and>
         attack_iteration m a data s = Inr \<lparr>imgs = adv out, acc_list = trace out\<rparr>" by auto
  from len first pre post lastc show ?thesis by (simp add: tr)
qed

theorem acc_list_length_witness:
  "attack_batch ex_model ex_args ex_batch = Inr ex_out \<and>
   num_attack_iter ex_args = 2 \<and> length (trace ex_out) = 2 \<and>
   int (length (trace ex_out)) = num_attack_iter ex_args \<and>
   acc_value (hd (trace ex_out)) = Inr (pre ex_out) \<and>
   acc_value (last (trace ex_out)) = Inr (post ex_out)"
  using acc_list_length[OF ex_attack_batch] ex_attack_batch
  by (simp add: ex_out_def ex_args_def)

theorem last_value_before_final_step_counterexample:
  "attack_batch ex_model one_args ex_batch = Inr one_out \<and>
   epsilon one_args = 2 \<and> num_attack_iter one_args = 1 \<and>
   adv one_out = [[Fin 2, Fin 1], [Fin 3, Fin 6], [Fin 6, Fin 6]] \<and>
   getitem (ex_model (adv one_out) ex_batch) ''acc'' = Inr (Tensor \<lparr>lval = 1 / 4, lgrad = None\<rparr>) \<and>
   last (trace one_out) = Tensor \<lparr>lval = 3 / 4, lgrad = None\<rparr> \<and>
   post one_out = 3 / 4 \<and> pre one_out = 3 / 4"
  using one_attack_batch
  by (simp add: one_out_def one_args_def ex_model_def getitem_def ex_batch_def)

text \<open>
  Claim C9. With \<open>num_attack_iter = 1\<close> and \<open>epsilon = 0\<close>, what a processed batch adds to
  the total under attack equals what it adds to the total before attack.
\<close>

theorem zero_budget_single_iter:
  assumes "num_attack_iter a = 1" and "epsilon a = 0" and "attack_batch m a data = Inr out"
  shows "post out = pre out"
proof -
  from attack_batch_InrD[OF assms(3)] obtain st where
    it: "attack_iters m a data (nat (num_attack_iter a)) (start data) = Inr st"
    and pre: "acc_value (hd (acc_list st)) = Inr (pre out)"
    and post: "acc_value (last (acc_list st)) = Inr (post out)"
    and tr: "trace out = acc_list st" by blast
  from attack_batch_iter_pos[OF assms(3)] assms(1) have "length (acc_list st) = 1"
    by (simp add: tr)
  then obtain v where "acc_list st = [v]" by (cases "acc_list st") auto
  with pre post show ?thesis by simp
qed

theorem zero_budget_single_iter_witness:
  "num_attack_iter single_args = 1 \<and> epsilon single_args = 0 \<and>
   attack_batch ex_model single_args ex_batch = Inr single_out \<and>
   post single_out = pre single_out \<and> pre single_out = 3 / 4"
proof -
  have n: "num_attack_iter single_args = 1" and e: "epsilon single_args = 0"
    by (simp_all add: single_args_def)
  from zero_budget_single_iter[OF n e single_attack_batch] n e single_attack_batch
  show ?thesis by (simp add: single_out_def)
qed

lemma attack_batches_fail:
  "map (attack_batch m a) ps = map Inr outs \<Longrightarrow> attack_batch m a d = Inl e \<Longrightarrow>
   i + int (length ps) < mb \<Longrightarrow>
   attack_batches m a mb i (ps @ d # rest) t w =
     (w\<lparr>written := written w @ concat (map files outs)\<rparr>, Inl e)"
proof (induction ps arbitrary: outs i t w)
  case Nil
  then show ?case by simp
next
  case (Cons p ps)
  from Cons.prems(1) obtain out outs' where o: "outs = out # outs'"
    and p: "attack_batch m a p = Inr out"
    and ps: "map (attack_batch m a) ps = map Inr outs'" by (cases outs) auto
  from Cons.prems(3) have i: "\<not> i \<ge> mb" and i': "(i + 1) + int (length ps) < mb" by simp_all
  from Cons.IH[OF ps Cons.prems(2) i'] i p show ?case by (simp add: o)
qed

lemma late_attack_batch: "attack_batch late_model ex_args ex_batch = Inr ex_out"
proof -
  have n: "nat (num_attack_iter ex_args) = Suc (Suc 0)" by (simp add: ex_args_def)
  have 1: "attack_iteration late_model ex_args ex_batch (start ex_batch) =
     Inr \<lparr>imgs = [[Fin (3 / 2), Fin (3 / 2)], [Fin 3, Fin 5], [Fin (11 / 2), Fin 6]],
          acc_list = [Tensor \<lparr>lval = 3 / 4, lgrad = None\<rparr>]\<rparr>"
    by (simp add: attack_iteration_def step_def clear_graph_def fdiv_def start_def Let_def
       max_abs_def backward_def late_model_def ex_model_def getitem_def ex_args_def ex_batch_def)
  have 2: "attack_iteration late_model ex_args ex_batch
      \<lparr>imgs = [[Fin (3 / 2), Fin (3 / 2)], [Fin 3, Fin 5], [Fin (11 / 2), Fin 6]],
       acc_list = [Tensor \<lparr>lval = 3 / 4, lgrad = None\<rparr>]\<rparr> =
     Inr \<lparr>imgs = [[Fin 2, Fin 1], [Fin 3, Fin 6], [Fin 6, Fin 6]],
          acc_list = [Tensor \<lparr>lval = 3 / 4, lgrad = None\<rparr>,
                      Tensor \<lparr>lval = 1 / 4, lgrad = None\<rparr>]\<rparr>"
    by (simp add: attack_iteration_def step_def clear_graph_def fdiv_def Let_def
       max_abs_def backward_def late_model_def ex_model_def getitem_def ex_args_def ex_batch_def)
  have "attack_iters late_model ex_args ex_batch (nat (num_attack_iter ex_args)) (start ex_batch) =
     Inr \<lparr>imgs = [[Fin 2, Fin 1], [Fin 3, Fin 6], [Fin 6, Fin 6]],
          acc_list = [Tensor \<lparr>lval = 3 / 4, lgrad = None\<rparr>,
                      Tensor \<lparr>lval = 1 / 4, lgrad = None\<rparr>]\<rparr>"
    unfolding n by (simp add: 1 2)
  then show ?thesis
    by (simp add: attack_batch_def start_def acc_value_def denorm_channel_def denorm_pixel_def
        reorder_def basename_def ex_batch_def ex_args_def ex_out_def)
qed

lemma late_first_iteration:
  "attack_iters late_model ex_args bad_batch (Suc 0) (start bad_batch) =
     Inr \<lparr>imgs = [[Fin (3 / 2), Fin (3 / 2)], [Fin 3, Fin 5], [Fin (11 / 2), Fin 6]],
          acc_list = [Tensor \<lparr>lval = 3 / 4, lgrad = None\<rparr>]\<rparr>"
  by (simp add: attack_iteration_def step_def clear_graph_def fdiv_def start_def Let_def
       max_abs_def backward_def late_model_def ex_model_def getitem_def ex_args_def bad_batch_def)

text \<open>
  Claim C6. When the result of the model at some iteration of some batch has no \<open>acc\<close>
  key, that iteration raises KeyError with the trace as the completed iterations left
  it (nothing is appended for the failing one). The error ends the iterations and the
  batch, and \<open>attack_detector\<close> itself ends with it, whatever batches had been completed
  before: no mean is reported, and the sink has been called for the completed batches
  only, so no later batch is processed.
\<close>

theorem missing_acc_fatal:
  assumes "prepare a w = (w1, Inr u)"
    and "ld = bdl ds 1 0 (gpus (cfg w))" and "data = ld ! b"
    and "b < length ld" and "int b < max_attack_batches a"
    and "map (attack_batch m a) (take b ld) = map Inr outs"
    and "attack_iters m a data j (start data) = Inr st"
    and "j < nat (num_attack_iter a)"
    and "map_of (m (imgs st) data) ''acc'' = None"
  shows "attack_iteration m a data st = Inl (KeyError, st) \<and>
         attack_iters m a data (nat (num_attack_iter a)) (start data) = Inl (KeyError, st) \<and>
         length (acc_list st) = j \<and>
         attack_batch m a data = Inl KeyError \<and>
         snd (attack_detector a m bdl ds w) = Inl KeyError \<and>
         written (fst (attack_detector a m bdl ds w)) = written w @ concat (map files outs)"
proof -
  have 1: "attack_iteration m a data st = Inl (KeyError, st)"
    using assms(9) by (simp add: attack_iteration_def getitem_def)
  from assms(8) obtain k where k: "nat (num_attack_iter a) = j + Suc k"
    by (metis less_imp_Suc_add add_Suc_right)
  have 2: "attack_iters m a data (nat (num_attack_iter a)) (start data) = Inl (KeyError, st)"
    unfolding k attack_iters_add using assms(7) 1 by simp
  from attack_iters_length[OF assms(7)] have 3: "length (acc_list st) = j"
    by (simp add: start_def)
  from 2 have 4: "attack_batch m a data = Inl KeyError" by (simp add: attack_batch_def)
  let ?mb = "min (int (length ld)) (max_attack_batches a)"
  let ?t0 = "\<lparr>acc_before_attack = 0, acc_under_attack = 0, pbar_outer = 0\<rparr>"
  from prepare_cfg[OF assms(1)]
  have c: "cfg w1 = (cfg w)\<lparr>workers_per_gpu := 0, imgs_per_gpu := 1\<rparr>"
    and wr: "written w1 = written w" by simp_all
  have split: "ld = take b ld @ data # drop (Suc b) ld"
    using assms(3,4) by (simp add: id_take_nth_drop)
  have lt: "0 + int (length (take b ld)) < ?mb" using assms(4,5) by simp
  from attack_batches_fail[OF assms(6) 4 lt, of "drop (Suc b) ld" ?t0 w1] split
  have l: "attack_batches m a ?mb 0 ld ?t0 w1 =
             (w1\<lparr>written := written w1 @ concat (map files outs)\<rparr>, Inl KeyError)" by simp
  have d: "attack_detector a m bdl ds w =
             (w1\<lparr>written := written w1 @ concat (map files outs)\<rparr>, Inl KeyError)"
    using assms(1) c l by (simp add: attack_detector_def assms(2)[symmetric] Let_def)
  from 1 2 3 4 d wr show ?thesis by simp
qed

theorem missing_acc_fatal_witness:
  "prepare ex_args ex_world = (ready_world, Inr ()) \<and>
   attack_batch late_model ex_args ex_batch = Inr ex_out \<and>
   attack_iters late_model ex_args bad_batch (Suc 0) (start bad_batch) =
     Inr \<lparr>imgs = [[Fin (3 / 2), Fin (3 / 2)], [Fin 3, Fin 5], [Fin (11 / 2), Fin 6]],
          acc_list = [Tensor \<lparr>lval = 3 / 4, lgrad = None\<rparr>]\<rparr> \<and>
   attack_batch late_model ex_args bad_batch = Inl KeyError \<and>
   snd (attack_detector ex_args late_model late_loader () ex_world) = Inl KeyError \<and>
   written (fst (attack_detector ex_args late_model late_loader () ex_world)) = files ex_out"
proof -
  let ?st = "\<lparr>imgs = [[Fin (3 / 2), Fin (3 / 2)], [Fin 3, Fin 5], [Fin (11 / 2), Fin 6]],
              acc_list = [Tensor \<lparr>lval = 3 / 4, lgrad = None\<rparr>]\<rparr>"
  have ld: "[ex_batch, bad_batch, ex_batch] = late_loader () 1 0 (gpus (cfg ex_world))"
    by (simp add: late_loader_def)
  have d: "bad_batch = [ex_batch, bad_batch, ex_batch] ! 1" by simp
  have b: "1 < length [ex_batch, bad_batch, ex_batch]" by simp
  have c: "int 1 < max_attack_batches ex_args" by (simp add: ex_args_def)
  have o: "map (attack_batch late_model ex_args) (take 1 [ex_batch, bad_batch, ex_batch])
             = map Inr [ex_out]" by (simp add: late_attack_batch)
  have j: "Suc 0 < nat (num_attack_iter ex_args)" by (simp add: ex_args_def)
  have k: "map_of (late_model (imgs ?st) bad_batch) ''acc'' = None"
    by (simp add: late_model_def no_acc_model_def bad_batch_def)
  from missing_acc_fatal[where bdl=late_loader and ds="()" and w=ex_world and a=ex_args
      and m=late_model and ld="[ex_batch, bad_batch, ex_batch]" and data=bad_batch
      and b=1 and outs="[ex_out]" and j="Suc 0" and st="?st",
      OF ex_prepare ld d b c o late_first_iteration j k]
    ex_prepare late_attack_batch late_first_iteration
  show ?thesis by (simp add: ex_world_def)
qed


section \<open>The loop over the batches and the reported means\<close>





section \<open>Denormalisation\<close>

lemma denorm_normalize_pixel:
  "s \<noteq> 0 \<Longrightarrow> denorm_pixel s mu (Fin (normalize_pixel s mu x)) = Fin x"
  by (simp add: denorm_pixel_def normalize_pixel_def)

text \<open>
  Claim C8. On an image of three channels whose stds are not zero, the loop of lines
  286 to 288 undoes the normalisation of the data source: applied to the normalised
  image (as the perturbed and as the raw image) it returns the image itself, in exact
  arithmetic.
\<close>

theorem denorm_inverts_norm:
  assumes "length x = 3" and "3 \<le> length sd" and "3 \<le> length mu"
    and "sd ! 0 \<noteq> 0" and "sd ! 1 \<noteq> 0" and "sd ! 2 \<noteq> 0"
  shows "denormalize sd mu [0, 1, 2]
           (map (map Fin) (normalize_img sd mu x), map (map Fin) (normalize_img sd mu x)) =
         Inr (map (map Fin) x, map (map Fin) x)"
proof -
  from assms(1) obtain c0 c1 c2 where x: "x = [c0, c1, c2]"
    by (cases x; cases "tl x"; cases "tl (tl x)") auto
  have u: "[0..<3] = [0, 1, 2]" by (simp add: upt_rec)
  have n: "map (map Fin) (normalize_img sd mu x) =
      [map (\<lambda>v. Fin (normalize_pixel (sd ! 0) (mu ! 0) v)) c0,
       map (\<lambda>v. Fin (normalize_pixel (sd ! 1) (mu ! 1) v)) c1,
       map (\<lambda>v. Fin (normalize_pixel (sd ! 2) (mu ! 2) v)) c2]"
    by (simp add: normalize_img_def x u comp_def numeral_2_eq_2)
  from assms(2,3) have ne: "sd \<noteq> []" "mu \<noteq> []" by auto
  show ?thesis
    unfolding n using assms(2-6) ne
    by (simp add: denorm_channel_def x comp_def denorm_normalize_pixel)
qed

theorem denorm_inverts_norm_witness:
  "normalize_img (std ex_batch) (mean ex_batch) [[3, 5], [8, 10], [13, 15]] = img ex_batch \<and>
   denormalize (std ex_batch) (mean ex_batch) [0, 1, 2]
     (map (map Fin) (normalize_img (std ex_batch) (mean ex_batch) [[3, 5], [8, 10], [13, 15]]),
      map (map Fin) (normalize_img (std ex_batch) (mean ex_batch) [[3, 5], [8, 10], [13, 15]])) =
   Inr ([[Fin 3, Fin 5], [Fin 8, Fin 10], [Fin 13, Fin 15]],
        [[Fin 3, Fin 5], [Fin 8, Fin 10], [Fin 13, Fin 15]])"
proof -
  have l: "length [[3, 5], [8, 10], [13, 15 :: real]] = 3" by simp
  have s: "3 \<le> length (std ex_batch)" "3 \<le> length (mean ex_batch)"
    "std ex_batch ! 0 \<noteq> 0" "std ex_batch ! 1 \<noteq> 0" "std ex_batch ! 2 \<noteq> 0"
    by (simp_all add: ex_batch_def)
  have n: "normalize_img (std ex_batch) (mean ex_batch) [[3, 5], [8, 10], [13, 15]]
             = img ex_batch"
    by (simp add: normalize_img_def normalize_pixel_def ex_batch_def upt_rec numeral_2_eq_2)
  from denorm_inverts_norm[OF l s] n show ?thesis by simp
qed

end
